theory Spec2Isabelle
  imports Complex_Main "HOL-Library.Word"
begin

section \<open>JavaScript values as the frontend sees them\<close>

text \<open>
  A JavaScript string is a sequence of UTF-16 code units; \<open>length\<close>, \<open>substring\<close> and
  \<open>trim\<close> all work on code units.  String literals of the source are ASCII and are
  written with \<open>js\<close>.
\<close>

type_synonym jsstring = "16 word list"

definition js :: "string \<Rightarrow> jsstring" where
  "js s = map of_char s"

text \<open>
  The values \<open>res.json()\<close> can produce, and \<open>undefined\<close> for a property that is not there.
  A number is an IEEE double; the frontend only tests numbers against zero and passes
  them on, so a finite double is represented by the rational it denotes (\<open>+0\<close> and
  \<open>-0\<close>, which \<open>===\<close> and truthiness do not tell apart, are both \<open>0\<close>).
  \<open>JObj\<close> lists the own properties of a parsed object, each key once.
\<close>

datatype jsval =
    JUndefined
  | JNull
  | JBool bool
  | JNum rat
  | JStr jsstring
  | JArr "jsval list"
  | JObj "(jsstring \<times> jsval) list"

datatype js_error = TypeError | SyntaxError | NetworkError

text \<open>\<open>v.name\<close> for the property names the frontend reads (none of them is defined on
  a built-in prototype): reading a property of \<open>null\<close> or \<open>undefined\<close> throws.\<close>

fun get_prop :: "jsval \<Rightarrow> jsstring \<Rightarrow> js_error + jsval" where
  "get_prop JUndefined name = Inl TypeError"
| "get_prop JNull name = Inl TypeError"
| "get_prop (JObj kvs) name = Inr (case map_of kvs name of Some v \<Rightarrow> v | None \<Rightarrow> JUndefined)"
| "get_prop v name = Inr JUndefined"

text \<open>\<open>Object.keys(v)\<close> of a parsed value: the own property names of an object, in order.\<close>

fun object_keys :: "jsval \<Rightarrow> jsstring list" where
  "object_keys (JObj kvs) = map fst kvs"
| "object_keys v = []"

text \<open>ToBoolean.\<close>

fun truthy :: "jsval \<Rightarrow> bool" where
  "truthy JUndefined = False"
| "truthy JNull = False"
| "truthy (JBool b) = b"
| "truthy (JNum r) = (r \<noteq> 0)"
| "truthy (JStr s) = (s \<noteq> [])"
| "truthy (JArr vs) = True"
| "truthy (JObj kvs) = True"

text \<open>
  ToString, as a template literal applies it to \<open>${v}\<close>, throws a TypeError for some parsed
  values.  A parsed object is converted by \<open>toString\<close> and then \<open>valueOf\<close>: an own property
  \<open>toString\<close> hides \<open>Object.prototype.toString\<close> and, coming from JSON, is not callable, and
  \<open>Object.prototype.valueOf\<close> gives back the object, so no primitive is found.  An array is
  joined from the conversions of its elements other than \<open>null\<close>.  Every other value has a
  string.
\<close>

fun to_string_throws :: "jsval \<Rightarrow> bool" and some_throws :: "jsval list \<Rightarrow> bool" where
  "to_string_throws (JObj kvs) = (map_of kvs (js ''toString'') \<noteq> None)"
| "to_string_throws (JArr vs) = some_throws vs"
| "to_string_throws v = False"
| "some_throws [] = False"
| "some_throws (v # vs) = (to_string_throws v \<or> some_throws vs)"

text \<open>\<open>a || b\<close>.\<close>

definition js_or :: "jsval \<Rightarrow> jsval \<Rightarrow> jsval" where
  "js_or a b = (if truthy a then a else b)"

text \<open>\<open>v === n\<close> for a numeric literal \<open>n\<close>: no conversion, so only a number can be equal.\<close>

fun strict_eq_num :: "jsval \<Rightarrow> rat \<Rightarrow> bool" where
  "strict_eq_num (JNum r) n = (r = n)"
| "strict_eq_num v n = False"

text \<open>The code units \<open>String.prototype.trim\<close> removes: WhiteSpace and LineTerminator.\<close>

definition js_whitespace :: "16 word \<Rightarrow> bool" where
  "js_whitespace c \<longleftrightarrow>
     c \<in> {0x0009, 0x000A, 0x000B, 0x000C, 0x000D, 0x0020, 0x00A0, 0x1680,
          0x2000, 0x2001, 0x2002, 0x2003, 0x2004, 0x2005, 0x2006, 0x2007, 0x2008, 0x2009, 0x200A,
          0x2028, 0x2029, 0x202F, 0x205F, 0x3000, 0xFEFF}"

definition trim :: "jsstring \<Rightarrow> jsstring" where
  "trim s = rev (dropWhile js_whitespace (rev (dropWhile js_whitespace s)))"

section \<open>The React component \<open>App\<close> (frontend/src/App.js)\<close>

subsection \<open>State and effects\<close>

datatype ntype = Success | Error

text \<open>The first argument of \<open>showNotification\<close>: a value, or the text of the template literal
  \<open>`\<checkmark> ${m} ${r}`\<close>, kept as its two interpolated values (both have a string conversion
  when the literal is built; the digits of a number are not computed).\<close>

datatype message = Val jsval | CheckTemplate jsval jsval

abbreviation Lit :: "string \<Rightarrow> message" where
  "Lit s \<equiv> Val (JStr (js s))"

text \<open>A request as \<open>fetch\<close> is given it; the body is the value that \<open>JSON.stringify\<close> writes.\<close>

record http_request =
  meth :: string
  url :: string
  headers :: "(string \<times> string) list"
  body :: "jsval option"

datatype timer_action = SetIsPlaying bool

datatype effect =
    Fetch http_request
  | ConsoleError
  | SetTimeout timer_action nat

text \<open>One field per \<open>useState\<close> hook of \<open>App\<close>.\<close>

record app_state =
  overlays :: jsval
  newContent :: jsstring
  newType :: jsstring
  isPlaying :: bool
  volume :: jsval
  snapToGrid :: bool
  loading :: bool
  notification :: "(message \<times> ntype) option"
  rtspUrl :: jsstring
  currentSource :: jsval
  showSettings :: bool
  testingConnection :: bool

definition initial_state :: app_state where
  "initial_state =
     \<lparr> overlays = JArr [], newContent = [], newType = js ''text'', isPlaying = False,
       volume = JNum 50, snapToGrid = False, loading = True, notification = None,
       rtspUrl = [], currentSource = JStr (js ''Webcam''), showSettings = False,
       testingConnection = False \<rparr>"

text \<open>
  What \<open>await fetch(...)\<close> followed by \<open>await res.json()\<close> can give: the fetch rejects, or
  there is a response with its \<open>ok\<close> flag whose body parses to a value or does not parse.
\<close>

datatype fetch_result = Rejected | Resp bool "jsval option"

definition API_URL :: string where
  "API_URL = ''http://localhost:5000''"

definition showNotification :: "message \<Rightarrow> ntype \<Rightarrow> app_state \<Rightarrow> app_state" where
  "showNotification m t s = s\<lparr>notification := Some (m, t)\<rparr>"

text \<open>\<open>source === 0 ? "Webcam" : source\<close>\<close>

definition webcam_or :: "jsval \<Rightarrow> jsval" where
  "webcam_or source = (if strict_eq_num source 0 then JStr (js ''Webcam'') else source)"

subsection \<open>The handlers\<close>

text \<open>
  Each async handler is run to its end on the outcome of its one request: the state
  returned is the state after all its setter calls, the effects are listed in the order
  they happen.  A \<open>throw\<close> inside \<open>try\<close> is an \<open>Inl\<close> that takes the \<open>catch\<close> branch.
\<close>

definition fetchCurrentSettings :: "fetch_result \<Rightarrow> app_state \<Rightarrow> app_state \<times> effect list" where
  "fetchCurrentSettings r s =
     (let req = Fetch \<lparr>meth = ''GET'', url = API_URL @ ''/settings'', headers = [], body = None\<rparr> in
      case r of
        Rejected \<Rightarrow> (s, [req, ConsoleError])
      | Resp ok None \<Rightarrow> (s, [req, ConsoleError])
      | Resp ok (Some data) \<Rightarrow>
          (case get_prop data (js ''current_source'') of
             Inl e \<Rightarrow> (s, [req, ConsoleError])
           | Inr source \<Rightarrow> (s\<lparr>currentSource := webcam_or source\<rparr>, [req])))"

definition updateVideoSource :: "fetch_result \<Rightarrow> app_state \<Rightarrow> app_state \<times> effect list" where
  "updateVideoSource r s =
     (let req = Fetch \<lparr>meth = ''POST'', url = API_URL @ ''/settings'',
                       headers = [(''Content-Type'', ''application/json'')],
                       body = Some (JObj [(js ''rtsp_url'', JStr (rtspUrl s))])\<rparr>;
          failed = (showNotification (Lit ''Failed to connect to backend'') Error s, [req]) in
      case r of
        Rejected \<Rightarrow> failed
      | Resp ok None \<Rightarrow> failed
      | Resp ok (Some data) \<Rightarrow>
          if ok then
            (case get_prop data (js ''message'') of
               Inl e \<Rightarrow> failed
             | Inr m \<Rightarrow>
                 (case get_prop data (js ''current_source'') of
                    Inl e \<Rightarrow> failed
                  | Inr source \<Rightarrow>
                      let s1 = showNotification (Val m) Success s;
                          s2 = s1\<lparr>currentSource := webcam_or source\<rparr>;
                          s3 = s2\<lparr>showSettings := False\<rparr> in
                      if isPlaying s
                      then (s3\<lparr>isPlaying := False\<rparr>, [req, SetTimeout (SetIsPlaying True) 500])
                      else (s3, [req])))
          else
            (case get_prop data (js ''error'') of
               Inl e \<Rightarrow> failed
             | Inr err \<Rightarrow>
                 (showNotification (Val (js_or err (JStr (js ''Failed to update source'')))) Error s,
                  [req])))"

definition testConnection :: "fetch_result \<Rightarrow> app_state \<Rightarrow> app_state \<times> effect list" where
  "testConnection r s =
     (if trim (rtspUrl s) = [] \<and> rtspUrl s \<noteq> js ''0''
      then (showNotification (Lit ''Please enter a source URL or use \"0\" for webcam'') Error s, [])
      else
        let req = Fetch \<lparr>meth = ''POST'', url = API_URL @ ''/test_connection'',
                         headers = [(''Content-Type'', ''application/json'')],
                         body = Some (JObj [(js ''rtsp_url'', JStr (rtspUrl s))])\<rparr>;
            s1 = s\<lparr>testingConnection := True\<rparr>;
            failed = showNotification (Lit ''Connection test failed'') Error s1;
            s2 = (case r of
                    Rejected \<Rightarrow> failed
                  | Resp ok None \<Rightarrow> failed
                  | Resp ok (Some data) \<Rightarrow>
                      (case get_prop data (js ''success'') of
                         Inl e \<Rightarrow> failed
                       | Inr success \<Rightarrow>
                           if truthy success
                           then (case (get_prop data (js ''message''), get_prop data (js ''resolution'')) of
                                   (Inr m, Inr res) \<Rightarrow>
                                     if to_string_throws m \<or> to_string_throws (js_or res (JStr []))
                                     then failed
                                     else showNotification
                                            (CheckTemplate m (js_or res (JStr []))) Success s1
                                 | _ \<Rightarrow> failed)
                           else (case get_prop data (js ''message'') of
                                   Inr m \<Rightarrow> showNotification (Val m) Error s1
                                 | Inl e \<Rightarrow> failed)))
        in (s2\<lparr>testingConnection := False\<rparr>, [req]))"

text \<open>The callback a timer runs when it fires.\<close>

fun fire_timer :: "timer_action \<Rightarrow> app_state \<Rightarrow> app_state" where
  "fire_timer (SetIsPlaying b) s = s\<lparr>isPlaying := b\<rparr>"

subsection \<open>What the sidebar shows as the video source\<close>

text \<open>
  The child of the \<open>source-text\<close> span:
  \<^verbatim>\<open>typeof currentSource === 'string' && currentSource.length > 30
    ? currentSource.substring(0, 30) + '...' : currentSource\<close>
\<close>

fun source_text :: "jsval \<Rightarrow> jsval" where
  "source_text (JStr s) = (if length s > 30 then JStr (take 30 s @ js ''...'') else JStr s)"
| "source_text v = v"

definition requests :: "effect list \<Rightarrow> http_request list" where
  "requests es = concat (map (\<lambda>e. case e of Fetch q \<Rightarrow> [q] | _ \<Rightarrow> []) es)"

subsection \<open>What React puts on the page\<close>

text \<open>
  A value given to React as the child of an element (\<open>react-dom\<close> 18, the README's
  dependency): a string is shown as it is and a number as the text of the number
  (\<open>Num n\<close>, its digits are not computed); \<open>true\<close>,
  \<open>false\<close>, \<open>null\<close> and \<open>undefined\<close> show nothing; the elements of an array are shown one
  after the other; a plain object is not a valid child, the render throws, and without an
  error boundary the whole of \<open>App\<close> is taken off the page.  The result is the text shown,
  piece by piece, or that error.
\<close>

datatype piece = Str jsstring | Num rat

datatype render_error = InvalidChild

fun react_child :: "jsval \<Rightarrow> render_error + piece list"
  and react_children :: "jsval list \<Rightarrow> render_error + piece list" where
  "react_child (JStr t) = Inr [Str t]"
| "react_child (JNum n) = Inr [Num n]"
| "react_child (JArr vs) = react_children vs"
| "react_child (JObj kvs) = Inl InvalidChild"
| "react_child v = Inr []"
| "react_children [] = Inr []"
| "react_children (v # vs) =
     (case react_child v of
        Inl e \<Rightarrow> Inl e
      | Inr ps \<Rightarrow> (case react_children vs of Inl e \<Rightarrow> Inl e | Inr qs \<Rightarrow> Inr (ps @ qs)))"

text \<open>The content of the \<open>source-text\<close> span when the stored source is \<open>v\<close>.\<close>

definition source_span :: "jsval \<Rightarrow> render_error + piece list" where
  "source_span v = react_child (source_text v)"

text \<open>Whether the notification, when there is one, can be rendered: \<open>Notification\<close> gives its
  message to React as a child; the text of a template literal is a string.\<close>

fun notification_renders :: "(message \<times> ntype) option \<Rightarrow> bool" where
  "notification_renders None = True"
| "notification_renders (Some (Val v, t)) = (case react_child v of Inl e \<Rightarrow> False | Inr ps \<Rightarrow> True)"
| "notification_renders (Some (CheckTemplate m r, t)) = True"

text \<open>
  What the source line of the sidebar shows once \<open>App\<close> has rendered in a state.  Of the
  other children of \<open>App\<close> only the notification is set by the settings handlers; the
  overlay list, which they do not touch, is taken to render.
\<close>

definition displayed :: "app_state \<Rightarrow> render_error + piece list" where
  "displayed s =
     (if notification_renders (notification s) then source_span (currentSource s)
      else Inl InvalidChild)"

section \<open>The probe behind \<open>/test_connection\<close>, after the specification\<close>

text \<open>
  The backend (\<open>backend/app.py\<close> in the README's project structure) is not among the
  source files; the frontend above is its only caller that is.  The definitions of this
  section follow the words of the specification (sections 3, 4.1, 6 and 9) for the part the
  connection test talks to: the Source Controller's state and its \<open>probe\<close>.
\<close>

subsection \<open>Source descriptors and source state\<close>

datatype source_kind = LocalDevice | RemoteStream

text \<open>Modelled from the spec: the Source Descriptor of section 3,
  \<open>{kind: LocalDevice | RemoteStream, identifier: string}\<close>; the backend's own type is missing.\<close>

record source_descriptor =
  kind :: source_kind
  ident :: jsstring  \<comment> \<open>the spec's \<open>identifier\<close>\<close>

text \<open>Modelled from the spec: the recognised local-device token of section 4.1, missing with the
  backend; the README and the frontend's input hint name \<open>"0"\<close> for the default webcam.\<close>

definition local_device_token :: "jsstring \<Rightarrow> bool" where
  "local_device_token t \<longleftrightarrow> t = js ''0''"

text \<open>Modelled from the spec: the default local device (glossary, Fallback); the backend's
  constant is missing.\<close>

definition default_device :: source_descriptor where
  "default_device = \<lparr>kind = LocalDevice, ident = js ''0''\<rparr>"

text \<open>Modelled from the spec: how an endpoint reads a source identifier (section 6), "empty or
  a local-device token selects the default device; any other non-empty string is treated as
  a remote stream URI"; the backend's handler is missing.\<close>

definition descriptor_of :: "jsstring \<Rightarrow> source_descriptor" where
  "descriptor_of t =
     (if t = [] \<or> local_device_token t then default_device
      else \<lparr>kind = RemoteStream, ident = t\<rparr>)"

text \<open>Modelled from the spec: the Source State of section 3; the backend's state is missing.\<close>

datatype source_state =
    Disconnected
  | Connecting
  | Streaming source_descriptor
  | Degraded jsstring
  | FallenBack source_descriptor

text \<open>Modelled from the spec: the source failures of section 7; the backend's error type is
  missing.\<close>

datatype source_error = SourceUnreachable | SourceTimeout | DecodeError

text \<open>Modelled from the spec: the typed failure reasons of a probe (section 4.1); the backend's
  type is missing.\<close>

datatype probe_failure = Unreachable | Unsupported | Timeout

subsection \<open>Frames and the shared frame slot\<close>

type_synonym pixel = nat

text \<open>Modelled from the spec: the Frame of section 3, "pixel buffer + width/height + capture
  timestamp"; the backend's frame type is missing.\<close>

record frame =
  fwidth :: nat
  fheight :: nat
  pixel_at :: "nat \<Rightarrow> nat \<Rightarrow> pixel"
  captured_at :: nat

text \<open>Modelled from the spec: the Shared Frame Slot of section 3, at most one frame, a
  monotonically increasing sequence number and the last successful capture time; the
  backend's buffer is missing.\<close>

record slot =
  held :: "frame option"
  seq :: nat
  last_capture :: "nat option"

definition empty_slot :: slot where
  "empty_slot = \<lparr>held = None, seq = 0, last_capture = None\<rparr>"

subsection \<open>Capture sessions\<close>

text \<open>
  \<open>openSource(descriptor)\<close> (section 9) fails with a typed error or gives a session; the
  \<open>n\<close>-th \<open>readFrame\<close> of a session, each bounded by its timeout (section 5), gives a frame
  or none.  What the sources do is a parameter of everything below.
\<close>

type_synonym capture = "nat \<Rightarrow> frame option"
type_synonym sources = "source_descriptor \<Rightarrow> source_error + capture"

text \<open>Modelled from the spec: waiting for a frame within a bounded time (section 4.1), here at
  most \<open>window\<close> reads from read \<open>n\<close> on; the backend's loop is missing.\<close>

primrec await_frame :: "capture \<Rightarrow> nat \<Rightarrow> nat \<Rightarrow> frame option" where
  "await_frame cap n 0 = None"
| "await_frame cap n (Suc window) =
     (case cap n of Some f \<Rightarrow> Some f | None \<Rightarrow> await_frame cap (Suc n) window)"

subsection \<open>Source Controller\<close>

text \<open>Modelled from the spec: the Source Controller of sections 4.1 and 9, an explicitly owned
  instance holding the Source State, the descriptor its one live Frame Acquirer is bound to,
  the shared slot, the capture sessions now open and the number of connected viewers; the
  backend's globals are missing.\<close>

record core =
  source_state :: source_state
  live_acquirer :: source_descriptor
  shared :: slot
  open_sessions :: "source_descriptor list"
  viewer_count :: nat

definition initial_core :: core where
  "initial_core =
     \<lparr>source_state = Disconnected, live_acquirer = default_device, shared = empty_slot,
      open_sessions = [], viewer_count = 0\<rparr>"

text \<open>Modelled from the spec: the ProbeReport of section 4.1, success with the resolution if
  available; the backend's report is missing.\<close>

record probe_report =
  resolution :: "(nat \<times> nat) option"

text \<open>Modelled from the spec: \<open>probe\<close> of section 4.1.  A separate, throwaway session is opened
  against the descriptor, one frame is awaited within a short timeout, and the session is
  closed at once; a failure is a typed reason.  The backend's function is missing.\<close>

definition probe ::
    "nat \<Rightarrow> sources \<Rightarrow> source_descriptor \<Rightarrow> core \<Rightarrow> (probe_failure + probe_report) \<times> core" where
  "probe timeout srcs d c =
     (case srcs d of
        Inl e \<Rightarrow> (Inl (if e = SourceTimeout then Timeout else if e = DecodeError then Unsupported
                        else Unreachable), c)
      | Inr cap \<Rightarrow>
          let c1 = c\<lparr>open_sessions := d # open_sessions c\<rparr>;
              outcome = (case await_frame cap 0 timeout of
                           None \<Rightarrow> Inl Timeout
                         | Some f \<Rightarrow> Inr \<lparr>resolution = Some (fwidth f, fheight f)\<rparr>);
              c2 = c1\<lparr>open_sessions := tl (open_sessions c1)\<rparr>
          in (outcome, c2))"

subsection \<open>The probe endpoint\<close>

text \<open>
  How resolutions and messages are written into the JSON body is not fixed by the
  specification; it is a parameter.
\<close>

record wire =
  enc_resolution :: "nat \<times> nat \<Rightarrow> jsval"
  probe_message :: "probe_failure option \<Rightarrow> jsval"

text \<open>Modelled from the spec: the probe endpoint of section 6, a POST "accepting a candidate
  source identifier, returning \<open>{success, message, resolution?}\<close> without side effects on the
  live stream"; the backend's handler is missing.\<close>

definition test_connection :: "wire \<Rightarrow> nat \<Rightarrow> sources \<Rightarrow> jsstring \<Rightarrow> core \<Rightarrow> jsval \<times> core" where
  "test_connection w timeout srcs t c =
     (case probe timeout srcs (descriptor_of t) c of
        (Inl reason, c') \<Rightarrow>
          (JObj [(js ''success'', JBool False), (js ''message'', probe_message w (Some reason))], c')
      | (Inr report, c') \<Rightarrow>
          (JObj ([(js ''success'', JBool True), (js ''message'', probe_message w None)] @
                 (case resolution report of
                    None \<Rightarrow> []
                  | Some r \<Rightarrow> [(js ''resolution'', enc_resolution w r)])), c'))"

subsection \<open>Sample inputs\<close>

definition sample_frame :: "nat \<Rightarrow> frame" where
  "sample_frame t = \<lparr>fwidth = 640, fheight = 480, pixel_at = (\<lambda>i j. t), captured_at = t\<rparr>"

text \<open>Sources whose sessions give their first frame at read \<open>k\<close>.\<close>

definition slow_sources :: "nat \<Rightarrow> sources" where
  "slow_sources k d = Inr (\<lambda>n. if n = k then Some (sample_frame n) else None)"

text \<open>A controller that is streaming a camera to two viewers.\<close>

definition camera :: source_descriptor where
  "camera = \<lparr>kind = RemoteStream, ident = js ''rtsp://cam''\<rparr>"

definition live_core :: core where
  "live_core =
     \<lparr>source_state = Streaming camera, live_acquirer = camera,
      shared = \<lparr>held = Some (sample_frame 7), seq = 7, last_capture = Some 7\<rparr>,
      open_sessions = [camera], viewer_count = 2\<rparr>"

definition sample_wire :: wire where
  "sample_wire =
     \<lparr>enc_resolution = (\<lambda>r. JArr [JNum (of_nat (fst r)), JNum (of_nat (snd r))]),
      probe_message = (\<lambda>r. case r of None \<Rightarrow> JStr (js ''Connection OK'')
                                    | Some reason \<Rightarrow> JStr (js ''Connection failed''))\<rparr>"

section \<open>Properties of the frontend\<close>

lemma strict_eq_num_zero: "strict_eq_num v 0 \<longleftrightarrow> v = JNum 0"
  by (cases v) auto

lemma get_prop_defined: "get_prop data name = Inr v \<Longrightarrow> \<exists>w. get_prop data name' = Inr w"
  by (cases data) auto

lemma trim_zero: "trim (js ''0'') = js ''0''"
  by (simp add: trim_def js_def js_whitespace_def)

text \<open>The second half of the guard of \<open>testConnection\<close> never decides: a text that trims to
  nothing is not \<open>"0"\<close>.\<close>

lemma blank_is_not_zero: "trim t = [] \<Longrightarrow> t \<noteq> js ''0''"
  using trim_zero by (auto simp: js_def)

text \<open>
  Claim C9.  When the text of the source field trims to the empty string (and is not
  \<open>"0"\<close>), \<open>testConnection\<close> sends no request at all, whatever the backend would answer; it
  shows the error notification asking for a source, and changes nothing else in the state:
  the \<open>testingConnection\<close> flag keeps its value, so it stays \<open>false\<close>.
\<close>

theorem testConnection_blank_input:
  assumes "trim (rtspUrl s) = []" and "rtspUrl s \<noteq> js ''0''"
  shows "snd (testConnection r s) = []
       \<and> requests (snd (testConnection r s)) = []
       \<and> fst (testConnection r s) =
           s\<lparr>notification := Some (Lit ''Please enter a source URL or use \"0\" for webcam'', Error)\<rparr>
       \<and> testingConnection (fst (testConnection r s)) = testingConnection s"
  using assms by (simp add: testConnection_def showNotification_def requests_def)

theorem testConnection_blank_input_witness:
  "trim (rtspUrl (initial_state\<lparr>rtspUrl := js ''  ''\<rparr>)) = []
   \<and> rtspUrl (initial_state\<lparr>rtspUrl := js ''  ''\<rparr>) \<noteq> js ''0''
   \<and> snd (testConnection (Resp True (Some (JObj [(js ''success'', JBool True)])))
            (initial_state\<lparr>rtspUrl := js ''  ''\<rparr>)) = []
   \<and> testingConnection (fst (testConnection (Resp True (Some (JObj [(js ''success'', JBool True)])))
            (initial_state\<lparr>rtspUrl := js ''  ''\<rparr>))) = False"
  using testConnection_blank_input [of "initial_state\<lparr>rtspUrl := js ''  ''\<rparr>"
      "Resp True (Some (JObj [(js ''success'', JBool True)]))"]
  by (simp add: trim_def js_def js_whitespace_def initial_state_def)

lemma source_span_cases:
  "source_span (if v = JNum 0 then JStr (js ''Webcam'') else v) =
     (if v = JNum 0 then Inr [Str (js ''Webcam'')]
      else case v of
             JStr t \<Rightarrow> Inr [Str (if length t \<le> 30 then t else take 30 t @ js ''...'')]
           | JNum n \<Rightarrow> Inr [Num n]
           | JArr vs \<Rightarrow> react_children vs
           | JObj kvs \<Rightarrow> Inl InvalidChild
           | _ \<Rightarrow> Inr [])"
  by (cases v) (simp_all add: source_span_def js_def)

text \<open>
  Claim C10, as amended.  When a settings response carries a body with a readable
  \<open>current_source\<close> (every body but \<open>null\<close>; for \<open>updateVideoSource\<close> the response must be
  \<open>ok\<close>), the frontend stores \<open>"Webcam"\<close> if \<open>current_source\<close> is the number \<open>0\<close> and the value
  itself otherwise, the string \<open>"0"\<close> included.  Once the app has rendered, the source line
  of the sidebar shows \<open>"Webcam"\<close> for the number \<open>0\<close>; a string of at most 30 code units as
  it is and a longer one cut to its first 30 followed by \<open>"..."\<close>; another number as its
  text; nothing for \<open>true\<close>, \<open>false\<close>, \<open>null\<close> or a \<open>current_source\<close> that is not
  there; the elements of an array; and for an object the render throws and nothing is
  shown at all, as it does when the notification cannot be rendered (an update whose
  \<open>message\<close> is an object).  A response with no readable \<open>current_source\<close> (a failed
  request, a body that does not parse or is \<open>null\<close>, an update answered not \<open>ok\<close>) leaves
  the stored source as it was.
\<close>

theorem current_source_display:
  assumes "get_prop data (js ''current_source'') = Inr v"
    and "get_prop data (js ''message'') = Inr m"
  shows "currentSource (fst (fetchCurrentSettings (Resp ok (Some data)) s)) =
           (if v = JNum 0 then JStr (js ''Webcam'') else v)
       \<and> currentSource (fst (updateVideoSource (Resp True (Some data)) s)) =
           (if v = JNum 0 then JStr (js ''Webcam'') else v)
       \<and> source_span (if v = JNum 0 then JStr (js ''Webcam'') else v) =
           (if v = JNum 0 then Inr [Str (js ''Webcam'')]
            else case v of
                   JStr t \<Rightarrow> Inr [Str (if length t \<le> 30 then t else take 30 t @ js ''...'')]
                 | JNum n \<Rightarrow> Inr [Num n]
                 | JArr vs \<Rightarrow> react_children vs
                 | JObj kvs \<Rightarrow> Inl InvalidChild
                 | _ \<Rightarrow> Inr [])
       \<and> displayed (fst (fetchCurrentSettings (Resp ok (Some data)) s)) =
           (if notification_renders (notification s)
            then source_span (if v = JNum 0 then JStr (js ''Webcam'') else v)
            else Inl InvalidChild)
       \<and> displayed (fst (updateVideoSource (Resp True (Some data)) s)) =
           (case react_child m of
              Inl e \<Rightarrow> Inl InvalidChild
            | Inr ps \<Rightarrow> source_span (if v = JNum 0 then JStr (js ''Webcam'') else v))
       \<and> currentSource (fst (fetchCurrentSettings Rejected s)) = currentSource s
       \<and> currentSource (fst (fetchCurrentSettings (Resp ok None) s)) = currentSource s
       \<and> currentSource (fst (fetchCurrentSettings (Resp ok (Some JNull)) s)) = currentSource s
       \<and> currentSource (fst (updateVideoSource Rejected s)) = currentSource s
       \<and> currentSource (fst (updateVideoSource (Resp ok None) s)) = currentSource s
       \<and> currentSource (fst (updateVideoSource (Resp ok (Some JNull)) s)) = currentSource s
       \<and> currentSource (fst (updateVideoSource (Resp False (Some data)) s)) = currentSource s"
proof -
  let ?stored = "if v = JNum 0 then JStr (js ''Webcam'') else v"
  have fetched: "fst (fetchCurrentSettings (Resp ok (Some data)) s) = s\<lparr>currentSource := ?stored\<rparr>"
    using assms(1) by (simp add: fetchCurrentSettings_def webcam_or_def strict_eq_num_zero)
  have updated: "fst (updateVideoSource (Resp True (Some data)) s) =
      s\<lparr>notification := Some (Val m, Success), currentSource := ?stored, showSettings := False,
        isPlaying := False\<rparr>"
    using assms
    by (simp add: updateVideoSource_def webcam_or_def strict_eq_num_zero showNotification_def Let_def)
  have shown_fetched: "displayed (fst (fetchCurrentSettings (Resp ok (Some data)) s)) =
           (if notification_renders (notification s) then source_span ?stored else Inl InvalidChild)"
    unfolding fetched by (simp add: displayed_def)
  have shown_updated: "displayed (fst (updateVideoSource (Resp True (Some data)) s)) =
           (case react_child m of Inl e \<Rightarrow> Inl InvalidChild | Inr ps \<Rightarrow> source_span ?stored)"
    unfolding updated by (simp add: displayed_def split: sum.splits)
  obtain e where e: "get_prop data (js ''error'') = Inr e"
    using get_prop_defined [OF assms(1)] by blast
  have kept:
    "currentSource (fst (fetchCurrentSettings Rejected s)) = currentSource s"
    "currentSource (fst (fetchCurrentSettings (Resp ok None) s)) = currentSource s"
    "currentSource (fst (fetchCurrentSettings (Resp ok (Some JNull)) s)) = currentSource s"
    "currentSource (fst (updateVideoSource Rejected s)) = currentSource s"
    "currentSource (fst (updateVideoSource (Resp ok None) s)) = currentSource s"
    "currentSource (fst (updateVideoSource (Resp ok (Some JNull)) s)) = currentSource s"
    "currentSource (fst (updateVideoSource (Resp False (Some data)) s)) = currentSource s"
    using e
    by (simp_all add: fetchCurrentSettings_def updateVideoSource_def showNotification_def Let_def)
  show ?thesis
    unfolding fetched updated
    by (intro conjI source_span_cases shown_fetched [unfolded fetched]
        shown_updated [unfolded updated] kept) simp_all
qed

theorem current_source_display_witness:
  "get_prop (JObj [(js ''message'', JStr (js ''Source switched'')), (js ''current_source'', JStr (js ''0''))])
      (js ''current_source'') = Inr (JStr (js ''0''))
   \<and> currentSource (fst (fetchCurrentSettings
        (Resp True (Some (JObj [(js ''message'', JStr (js ''Source switched'')),
                                (js ''current_source'', JStr (js ''0''))]))) initial_state))
       = JStr (js ''0'')
   \<and> displayed (fst (fetchCurrentSettings
        (Resp True (Some (JObj [(js ''message'', JStr (js ''Source switched'')),
                                (js ''current_source'', JStr (js ''0''))]))) initial_state))
       = Inr [Str (js ''0'')]
   \<and> displayed (fst (updateVideoSource
        (Resp True (Some (JObj [(js ''message'', JStr (js ''Source switched'')),
                                (js ''current_source'', JStr (js ''0''))]))) initial_state))
       = Inr [Str (js ''0'')]"
proof -
  have cs: "get_prop (JObj [(js ''message'', JStr (js ''Source switched'')),
                            (js ''current_source'', JStr (js ''0''))])
      (js ''current_source'') = Inr (JStr (js ''0''))"
    by (simp add: js_def)
  have msg: "get_prop (JObj [(js ''message'', JStr (js ''Source switched'')),
                             (js ''current_source'', JStr (js ''0''))])
      (js ''message'') = Inr (JStr (js ''Source switched''))"
    by simp
  have short: "length (js ''0'') \<le> 30"
    by (simp add: js_def)
  from current_source_display [OF cs msg, of True initial_state] cs short
  show ?thesis
    by (simp add: initial_state_def)
qed

text \<open>
  The claim as it is written fails in five ways.  The README's sample stream URI comes
  back from the settings endpoint and is shown cut to 30 code units, not verbatim; the
  value \<open>false\<close> is shown as nothing; an object makes the render throw; a \<open>null\<close> body
  leaves \<open>"Webcam"\<close> on the page though no number \<open>0\<close> came; and so does an update answered
  not \<open>ok\<close>, whatever \<open>current_source\<close> it carries.
\<close>

theorem current_source_display_counterexample:
  "displayed (fst (fetchCurrentSettings
      (Resp True (Some (JObj [(js ''current_source'',
         JStr (js ''rtsp://wowzaec2demo.streamlock.net/vod/mp4:BigBuckBunny_115k.mp4''))])))
      initial_state))
   = Inr [Str (js ''rtsp://wowzaec2demo.streamlock...'')]
   \<and> js ''rtsp://wowzaec2demo.streamlock...''
       \<noteq> js ''rtsp://wowzaec2demo.streamlock.net/vod/mp4:BigBuckBunny_115k.mp4''
   \<and> displayed (fst (fetchCurrentSettings
      (Resp True (Some (JObj [(js ''current_source'', JBool False)]))) initial_state)) = Inr []
   \<and> displayed (fst (fetchCurrentSettings
      (Resp True (Some (JObj [(js ''current_source'', JObj [(js ''url'', JStr (js ''rtsp://cam''))])])))
      initial_state)) = Inl InvalidChild
   \<and> displayed (fst (fetchCurrentSettings (Resp True (Some JNull)) initial_state))
       = Inr [Str (js ''Webcam'')]
   \<and> displayed (fst (updateVideoSource
      (Resp False (Some (JObj [(js ''error'', JStr (js ''Stream unreachable'')),
                               (js ''current_source'', JStr (js ''rtsp://cam''))])))
      initial_state)) = Inr [Str (js ''Webcam'')]"
proof -
  have long: "displayed (fst (fetchCurrentSettings
      (Resp True (Some (JObj [(js ''current_source'',
         JStr (js ''rtsp://wowzaec2demo.streamlock.net/vod/mp4:BigBuckBunny_115k.mp4''))])))
      initial_state))
   = Inr [Str (js ''rtsp://wowzaec2demo.streamlock...'')]"
    by (simp add: displayed_def source_span_def fetchCurrentSettings_def webcam_or_def js_def
        initial_state_def)
  have differ: "js ''rtsp://wowzaec2demo.streamlock...''
       \<noteq> js ''rtsp://wowzaec2demo.streamlock.net/vod/mp4:BigBuckBunny_115k.mp4''"
    by (simp add: js_def)
  have blank_line: "displayed (fst (fetchCurrentSettings
      (Resp True (Some (JObj [(js ''current_source'', JBool False)]))) initial_state)) = Inr []"
    by (simp add: displayed_def source_span_def fetchCurrentSettings_def webcam_or_def
        initial_state_def)
  have thrown: "displayed (fst (fetchCurrentSettings
      (Resp True (Some (JObj [(js ''current_source'', JObj [(js ''url'', JStr (js ''rtsp://cam''))])])))
      initial_state)) = Inl InvalidChild"
    by (simp add: displayed_def source_span_def fetchCurrentSettings_def webcam_or_def
        initial_state_def)
  have null_body: "displayed (fst (fetchCurrentSettings (Resp True (Some JNull)) initial_state))
       = Inr [Str (js ''Webcam'')]"
    by (simp add: displayed_def source_span_def fetchCurrentSettings_def initial_state_def js_def)
  have refused: "displayed (fst (updateVideoSource
      (Resp False (Some (JObj [(js ''error'', JStr (js ''Stream unreachable'')),
                               (js ''current_source'', JStr (js ''rtsp://cam''))])))
      initial_state)) = Inr [Str (js ''Webcam'')]"
    by (simp add: displayed_def source_span_def updateVideoSource_def showNotification_def
        js_or_def initial_state_def js_def)
  show ?thesis
    by (intro conjI long differ blank_line thrown null_body refused)
qed

section \<open>The connection test leaves the live stream alone\<close>

text \<open>A probe closes the session it opened: the controller is as it was.\<close>

lemma probe_core: "snd (probe timeout srcs d c) = c"
  by (simp add: probe_def Let_def split: sum.splits)

text \<open>Whatever the backend answers, \<open>testConnection\<close> writes only the notification and the
  \<open>testingConnection\<close> flag.\<close>

lemma testConnection_frame:
  "\<exists>n t. fst (testConnection r s) = s\<lparr>notification := n, testingConnection := t\<rparr>"
proof (cases "trim (rtspUrl s) = [] \<and> rtspUrl s \<noteq> js ''0''")
  case True
  then have "fst (testConnection r s) =
     s\<lparr>notification := Some (Lit ''Please enter a source URL or use \"0\" for webcam'', Error),
       testingConnection := testingConnection s\<rparr>"
    by (simp add: testConnection_def showNotification_def)
  then show ?thesis by blast
next
  case False
  let ?s1 = "s\<lparr>testingConnection := True\<rparr>"
  let ?failed = "showNotification (Lit ''Connection test failed'') Error ?s1"
  have answered: "\<exists>m. (case get_prop data (js ''success'') of
                 Inl e \<Rightarrow> ?failed
               | Inr success \<Rightarrow>
                   if truthy success
                   then (case (get_prop data (js ''message''), get_prop data (js ''resolution'')) of
                           (Inr m, Inr res) \<Rightarrow>
                             if to_string_throws m \<or> to_string_throws (js_or res (JStr []))
                             then ?failed
                             else showNotification
                                    (CheckTemplate m (js_or res (JStr []))) Success ?s1
                         | _ \<Rightarrow> ?failed)
                   else (case get_prop data (js ''message'') of
                           Inr m \<Rightarrow> showNotification (Val m) Error ?s1
                         | Inl e \<Rightarrow> ?failed)) = ?s1\<lparr>notification := Some m\<rparr>" for data
    by (cases data) (auto simp: showNotification_def)
  have sent: "fst (testConnection r s) =
     (case r of
        Rejected \<Rightarrow> ?failed
      | Resp ok None \<Rightarrow> ?failed
      | Resp ok (Some data) \<Rightarrow>
          (case get_prop data (js ''success'') of
                 Inl e \<Rightarrow> ?failed
               | Inr success \<Rightarrow>
                   if truthy success
                   then (case (get_prop data (js ''message''), get_prop data (js ''resolution'')) of
                           (Inr m, Inr res) \<Rightarrow>
                             if to_string_throws m \<or> to_string_throws (js_or res (JStr []))
                             then ?failed
                             else showNotification
                                    (CheckTemplate m (js_or res (JStr []))) Success ?s1
                         | _ \<Rightarrow> ?failed)
                   else (case get_prop data (js ''message'') of
                           Inr m \<Rightarrow> showNotification (Val m) Error ?s1
                         | Inl e \<Rightarrow> ?failed)))\<lparr>testingConnection := False\<rparr>"
    unfolding testConnection_def Let_def using False by (simp only: if_False fst_conv)
  have "\<exists>m. fst (testConnection r s) = s\<lparr>notification := Some m, testingConnection := False\<rparr>"
  proof (cases r)
    case Rejected
    show ?thesis
      by (rule exI [of _ "(Lit ''Connection test failed'', Error)"], subst sent)
        (simp add: Rejected showNotification_def)
  next
    case (Resp ok parsed)
    show ?thesis
    proof (cases parsed)
      case None
      show ?thesis
        by (rule exI [of _ "(Lit ''Connection test failed'', Error)"], subst sent)
          (simp add: Resp None showNotification_def)
    next
      case (Some data)
      from answered [of data] obtain m where m: "(case get_prop data (js ''success'') of
                 Inl e \<Rightarrow> ?failed
               | Inr success \<Rightarrow>
                   if truthy success
                   then (case (get_prop data (js ''message''), get_prop data (js ''resolution'')) of
                           (Inr m, Inr res) \<Rightarrow>
                             if to_string_throws m \<or> to_string_throws (js_or res (JStr []))
                             then ?failed
                             else showNotification
                                    (CheckTemplate m (js_or res (JStr []))) Success ?s1
                         | _ \<Rightarrow> ?failed)
                   else (case get_prop data (js ''message'') of
                           Inr m \<Rightarrow> showNotification (Val m) Error ?s1
                         | Inl e \<Rightarrow> ?failed)) = ?s1\<lparr>notification := Some m\<rparr>" ..
      have "fst (testConnection r s) = (?s1\<lparr>notification := Some m\<rparr>)\<lparr>testingConnection := False\<rparr>"
        by (subst sent) (simp only: Resp Some m fetch_result.case option.case)
      then show ?thesis by (intro exI [of _ m]) simp
    qed
  qed
  then show ?thesis by blast
qed

text \<open>What \<open>testConnection\<close> does besides writing state: nothing on a blank input, else its
  one request to the probe endpoint.  It sets no timer and sends nothing to \<open>/settings\<close>.\<close>

lemma testConnection_effects:
  "snd (testConnection r s) =
     (if trim (rtspUrl s) = [] \<and> rtspUrl s \<noteq> js ''0'' then []
      else [Fetch \<lparr>meth = ''POST'', url = ''http://localhost:5000/test_connection'',
                   headers = [(''Content-Type'', ''application/json'')],
                   body = Some (JObj [(js ''rtsp_url'', JStr (rtspUrl s))])\<rparr>])"
  by (simp add: testConnection_def Let_def API_URL_def)

text \<open>
  Claim C3.  For every descriptor, and for every source identifier posted to the probe
  endpoint, the probe leaves the controller as it found it: the Source State, the shared
  frame slot and the descriptor of the live Frame Acquirer are unchanged, and no session
  stays open.  The endpoint answers with an object whose fields are \<open>success\<close>, \<open>message\<close>
  and, when a frame was read, \<open>resolution\<close>.  On the frontend, \<open>testConnection\<close> changes
  nothing in the state but the notification and the \<open>testingConnection\<close> flag, whatever
  the answer, so the current source and the playback state stay as they are; and it has no
  other effect than its one request to \<open>/test_connection\<close>: no request to \<open>/settings\<close> and
  no timer that would change the playback later.
\<close>

theorem probe_side_effect_free:
  "snd (probe timeout srcs d c) = c
   \<and> snd (test_connection w timeout srcs t c) = c
   \<and> source_state (snd (test_connection w timeout srcs t c)) = source_state c
   \<and> shared (snd (test_connection w timeout srcs t c)) = shared c
   \<and> live_acquirer (snd (test_connection w timeout srcs t c)) = live_acquirer c
   \<and> object_keys (fst (test_connection w timeout srcs t c))
       \<in> {[js ''success'', js ''message''], [js ''success'', js ''message'', js ''resolution'']}
   \<and> (\<exists>n b. fst (testConnection r s) = s\<lparr>notification := n, testingConnection := b\<rparr>)
   \<and> currentSource (fst (testConnection r s)) = currentSource s
   \<and> isPlaying (fst (testConnection r s)) = isPlaying s
   \<and> snd (testConnection r s) =
       (if trim (rtspUrl s) = [] \<and> rtspUrl s \<noteq> js ''0'' then []
        else [Fetch \<lparr>meth = ''POST'', url = ''http://localhost:5000/test_connection'',
                     headers = [(''Content-Type'', ''application/json'')],
                     body = Some (JObj [(js ''rtsp_url'', JStr (rtspUrl s))])\<rparr>])"
proof -
  have core: "snd (test_connection w timeout srcs t c) = c"
  proof (cases "probe timeout srcs (descriptor_of t) c")
    case (Pair res c')
    with probe_core [of timeout srcs "descriptor_of t" c] have "c' = c" by simp
    with Pair show ?thesis
      by (cases res) (simp_all add: test_connection_def)
  qed
  have keys: "object_keys (fst (test_connection w timeout srcs t c))
       \<in> {[js ''success'', js ''message''], [js ''success'', js ''message'', js ''resolution'']}"
  proof (cases "probe timeout srcs (descriptor_of t) c")
    case (Pair res c')
    then show ?thesis
      by (cases res) (simp_all add: test_connection_def split: option.splits)
  qed
  have frame: "\<exists>n b. fst (testConnection r s) = s\<lparr>notification := n, testingConnection := b\<rparr>"
    by (rule testConnection_frame)
  then obtain n b where fr: "fst (testConnection r s) = s\<lparr>notification := n, testingConnection := b\<rparr>"
    by blast
  have source: "currentSource (fst (testConnection r s)) = currentSource s"
    and playing: "isPlaying (fst (testConnection r s)) = isPlaying s"
    by (simp_all add: fr)
  have kept: "source_state (snd (test_connection w timeout srcs t c)) = source_state c"
    "shared (snd (test_connection w timeout srcs t c)) = shared c"
    "live_acquirer (snd (test_connection w timeout srcs t c)) = live_acquirer c"
    by (simp_all add: core)
  show ?thesis
    by (intro conjI probe_core core kept keys frame source playing testConnection_effects)
qed

theorem probe_side_effect_free_witness:
  "test_connection sample_wire 3 (slow_sources 2) (js ''rtsp://door'') live_core =
     (JObj [(js ''success'', JBool True), (js ''message'', JStr (js ''Connection OK'')),
            (js ''resolution'', JArr [JNum 640, JNum 480])], live_core)
   \<and> source_state (snd (test_connection sample_wire 3 (slow_sources 2) (js ''rtsp://door'') live_core))
       = Streaming camera
   \<and> seq (shared (snd (test_connection sample_wire 3 (slow_sources 2) (js ''rtsp://door'') live_core)))
       = 7
   \<and> currentSource (fst (testConnection
         (Resp True (Some (fst (test_connection sample_wire 3 (slow_sources 2) (js ''rtsp://door'')
            live_core))))
         (initial_state\<lparr>rtspUrl := js ''rtsp://door'', isPlaying := True\<rparr>))) = JStr (js ''Webcam'')
   \<and> isPlaying (fst (testConnection
         (Resp True (Some (fst (test_connection sample_wire 3 (slow_sources 2) (js ''rtsp://door'')
            live_core))))
         (initial_state\<lparr>rtspUrl := js ''rtsp://door'', isPlaying := True\<rparr>))) = True
   \<and> snd (testConnection
         (Resp True (Some (fst (test_connection sample_wire 3 (slow_sources 2) (js ''rtsp://door'')
            live_core))))
         (initial_state\<lparr>rtspUrl := js ''rtsp://door'', isPlaying := True\<rparr>)) =
       [Fetch \<lparr>meth = ''POST'', url = ''http://localhost:5000/test_connection'',
                headers = [(''Content-Type'', ''application/json'')],
                body = Some (JObj [(js ''rtsp_url'', JStr (js ''rtsp://door''))])\<rparr>]"
proof -
  let ?reply = "fst (test_connection sample_wire 3 (slow_sources 2) (js ''rtsp://door'') live_core)"
  let ?page = "initial_state\<lparr>rtspUrl := js ''rtsp://door'', isPlaying := True\<rparr>"
  have probed: "probe 3 (slow_sources 2) d live_core =
      (Inr \<lparr>resolution = Some (640, 480)\<rparr>, live_core)" for d
    by (simp add: probe_def slow_sources_def numeral_3_eq_3 sample_frame_def)
  have reply: "test_connection sample_wire 3 (slow_sources 2) (js ''rtsp://door'') live_core =
     (JObj [(js ''success'', JBool True), (js ''message'', JStr (js ''Connection OK'')),
            (js ''resolution'', JArr [JNum 640, JNum 480])], live_core)"
    by (simp add: test_connection_def probed sample_wire_def)
  have typed: "\<not> (trim (rtspUrl ?page) = [] \<and> rtspUrl ?page \<noteq> js ''0'')"
    by (simp add: trim_def js_def js_whitespace_def)
  note here = probe_side_effect_free [of 3 "slow_sources 2" camera live_core
      sample_wire "js ''rtsp://door''" "Resp True (Some ?reply)" ?page]
  have live: "source_state (snd (test_connection sample_wire 3 (slow_sources 2) (js ''rtsp://door'')
        live_core)) = Streaming camera"
    "seq (shared (snd (test_connection sample_wire 3 (slow_sources 2) (js ''rtsp://door'') live_core)))
       = 7"
    using here by (simp_all add: live_core_def)
  have page: "currentSource (fst (testConnection (Resp True (Some ?reply)) ?page)) = JStr (js ''Webcam'')"
    "isPlaying (fst (testConnection (Resp True (Some ?reply)) ?page)) = True"
    using here by (simp_all add: initial_state_def)
  have sent: "snd (testConnection (Resp True (Some ?reply)) ?page) =
       [Fetch \<lparr>meth = ''POST'', url = ''http://localhost:5000/test_connection'',
                headers = [(''Content-Type'', ''application/json'')],
                body = Some (JObj [(js ''rtsp_url'', JStr (js ''rtsp://door''))])\<rparr>]"
    using here typed by simp
  show ?thesis
    by (intro conjI reply live page sent)
qed

end
